theory Spec2Isabelle
  imports Complex_Main "HOL-Library.AList"
begin

section \<open>Python values, exceptions and strings\<close>

text \<open>
  The server is a set of request handlers over two module-level variables
  (\<open>workspaces\<close>, \<open>current_workspace_id\<close>), a scratch directory and an external
  geometry engine. Every handler is modelled as a function from the state before the
  request to the state after it and an outcome: the dictionary it returns, or the
  exception that leaves it.
\<close>

type_synonym path = string

text \<open>
  \<open>Exception m\<close> is an instance of Python's \<open>Exception\<close> with \<open>str(e) = m\<close>;
  \<open>BaseException m\<close> is one that is not (\<open>SystemExit\<close>, \<open>KeyboardInterrupt\<close>), which
  \<open>except Exception\<close> does not catch.
\<close>

datatype exn = Exception string | BaseException string

fun str_exn :: "exn \<Rightarrow> string" where
  "str_exn (Exception m) = m"
| "str_exn (BaseException m) = m"

text \<open>A value held by the geometry engine, or Python's \<open>None\<close>.\<close>

datatype pyval = PyNone | PyObj nat

text \<open>The dictionaries the handlers return.\<close>

datatype jval =
    JNone
  | JStr string
  | JInt nat
  | JFloat real
  | JList "jval list"
  | JDict "(string \<times> jval) list"

type_synonym payload = "(string \<times> jval) list"

datatype outcome = Returned payload | Raises exn

text \<open>Decimal digits of \<open>len(...)\<close> inside an f-string.\<close>

definition digit_char :: "nat \<Rightarrow> char" where
  "digit_char d = ''0123456789'' ! d"

function str_nat :: "nat \<Rightarrow> string" where
  "str_nat n = (if n < 10 then [digit_char n] else str_nat (n div 10) @ [digit_char (n mod 10)])"
  by pat_completeness auto
termination
  by (relation "measure (\<lambda>n. n)") auto

declare str_nat.simps [simp del]

text \<open>
  \<open>str.lower()\<close> and \<open>str.upper()\<close> on the ASCII letters; every other character is left
  as it is. No character outside ASCII lowers to a letter of \<open>stl\<close>, \<open>step\<close> or
  \<open>stp\<close>, so the format tests below agree with Python's on every string.
\<close>

definition ascii_uppercase :: string where
  "ascii_uppercase = ''ABCDEFGHIJKLMNOPQRSTUVWXYZ''"

definition ascii_lowercase :: string where
  "ascii_lowercase = ''abcdefghijklmnopqrstuvwxyz''"

definition lower_char :: "char \<Rightarrow> char" where
  "lower_char c = (case map_of (zip ascii_uppercase ascii_lowercase) c of Some d \<Rightarrow> d | None \<Rightarrow> c)"

definition upper_char :: "char \<Rightarrow> char" where
  "upper_char c = (case map_of (zip ascii_lowercase ascii_uppercase) c of Some d \<Rightarrow> d | None \<Rightarrow> c)"

definition lower :: "string \<Rightarrow> string" where
  "lower s = map lower_char s"

definition upper :: "string \<Rightarrow> string" where
  "upper s = map upper_char s"

definition endswith :: "string \<Rightarrow> string \<Rightarrow> bool" where
  "endswith s suf = (length suf \<le> length s \<and> drop (length s - length suf) s = suf)"

definition startswith :: "string \<Rightarrow> string \<Rightarrow> bool" where
  "startswith s pre = (take (length pre) s = pre)"

text \<open>\<open>pat in s\<close> on strings.\<close>

fun str_contains :: "string \<Rightarrow> string \<Rightarrow> bool" where
  "str_contains pat [] = (pat = [])"
| "str_contains pat (c # cs) = (startswith (c # cs) pat \<or> str_contains pat cs)"

text \<open>\<open>f"'{s}'"\<close>\<close>

definition quoted :: "string \<Rightarrow> string" where
  "quoted s = [CHR 0x27] @ s @ [CHR 0x27]"

text \<open>
  \<open>os.path.join\<close> of two components (posixpath): an absolute second component
  replaces the first.
\<close>

definition os_path_join :: "path \<Rightarrow> path \<Rightarrow> path" where
  "os_path_join a b =
     (if startswith b ''/'' then b
      else if a = [] \<or> endswith a ''/'' then a @ b
      else a @ ''/'' @ b)"

text \<open>
  \<open>f.readline()\<close> of a file opened in text mode: the characters up to the first line
  end (\<open>\n\<close>, \<open>\r\<close> or \<open>\r\n\<close>, universal newlines), which is returned as \<open>\n\<close>.
\<close>

definition is_newline :: "char \<Rightarrow> bool" where
  "is_newline c = (c = CHR 0x0A \<or> c = CHR 0x0D)"

definition readline :: "string \<Rightarrow> string" where
  "readline cs =
     (let l = takeWhile (\<lambda>c. \<not> is_newline c) cs
      in if length l < length cs then l @ [CHR 0x0A] else l)"


section \<open>Configuration, external collaborators and state\<close>

text \<open>
  What is fixed when the module is loaded: whether \<open>import cadquery\<close> succeeded, the
  scratch directory of the server (\<open>tempfile.mkdtemp\<close>) and the one that
  \<open>integrate_with_mcp_server\<close> makes for the bridge.
\<close>

record config =
  CADQUERY_AVAILABLE :: bool
  temp_dir :: path
  bridge_temp_dir :: path

text \<open>
  \<open>exporters.export(shape, path)\<close> chooses the format from the file name;
  \<open>exporters.export(shape, path, exporters.ExportTypes.STEP, tolerance=0.001,
  angularTolerance=0.1)\<close> is the STEP export.
\<close>

datatype export_type = ByExtension | STEP

text \<open>
  The geometry engine, the file system's permissions and the editor process are outside
  the program. What they answer during one request is a parameter: each call returns a
  value or raises. \<open>engine_export\<close> returns the text it writes at the path it is
  given, or \<open>None\<close> when it returns without having written a file. \<open>exec_script\<close> is
  \<open>exec(script, {}, local_scope)\<close> followed by the lookup of \<open>result\<close>: \<open>None\<close> when the
  script binds no such variable; the script is taken not to touch the server's own
  variables. \<open>open_write\<close> and \<open>open_read\<close> say whether opening (and then writing or
  decoding) a file fails. \<open>has_solid_api\<close> is the test
  \<open>hasattr(workplane, "val") and workplane.val and hasattr(workplane, "findSolid")\<close>.
\<close>

record env =
  cq_Assembly :: pyval
  cq_box :: "real \<Rightarrow> real \<Rightarrow> real \<Rightarrow> bool \<Rightarrow> exn + pyval"
  cq_cylinder :: "real \<Rightarrow> real \<Rightarrow> exn + pyval"
  wp_union :: "pyval \<Rightarrow> pyval \<Rightarrow> exn + pyval"
  wp_cut :: "pyval \<Rightarrow> pyval \<Rightarrow> exn + pyval"
  wp_intersect :: "pyval \<Rightarrow> pyval \<Rightarrow> exn + pyval"
  has_solid_api :: "pyval \<Rightarrow> bool"
  findSolid :: "pyval \<Rightarrow> exn + pyval"
  engine_export :: "pyval \<Rightarrow> path \<Rightarrow> export_type \<Rightarrow> exn + string option"
  exec_script :: "string \<Rightarrow> exn + pyval option"
  open_write :: "path \<Rightarrow> exn option"
  open_read :: "path \<Rightarrow> exn option"
  ctx_info :: "string \<Rightarrow> exn option"
  start_cq_editor :: bool
  stop_cq_editor :: bool

text \<open>
  An entry of \<open>workspace["objects"]\<close>: the dictionary's \<open>type\<close> key with the keys that
  go with it, and the \<open>workplane\<close> key, which the mock branches leave out (\<open>None\<close>).
\<close>

datatype obj_params =
    Box real real real bool
  | Cylinder real real bool
  | Boolean string string string
  | Script string

record modeling_object =
  params :: obj_params
  workplane :: "pyval option"

text \<open>
  Dictionaries are association lists in insertion order; \<open>d[k] = v\<close> is
  \<open>AList.update k v d\<close>, \<open>k in d\<close> is \<open>map_of d k \<noteq> None\<close>.
\<close>

definition dict_keys :: "('k \<times> 'v) list \<Rightarrow> 'k list" where
  "dict_keys d = remdups (map fst d)"

definition dict_len :: "('k \<times> 'v) list \<Rightarrow> nat" where
  "dict_len d = length (dict_keys d)"

record workspace =
  objects :: "(string \<times> modeling_object) list"
  assembly :: pyval
  current_object :: "string option"

record state =
  workspaces :: "(string \<times> workspace) list"
  current_workspace_id :: string
  files :: "(path \<times> string) list"

definition new_workspace :: "config \<Rightarrow> env \<Rightarrow> workspace" where
  "new_workspace cfg e =
     \<lparr>objects = [],
      assembly = (if CADQUERY_AVAILABLE cfg then cq_Assembly e else PyNone),
      current_object = None\<rparr>"

definition script_file :: "config \<Rightarrow> path" where
  "script_file cfg = os_path_join (bridge_temp_dir cfg) ''current_script.py''"

definition initial_script :: string where
  "initial_script =
     ''import cadquery as cq'' @ [CHR 0x0A, CHR 0x0A] @ ''# Initial empty script'' @ [CHR 0x0A]
       @ ''result = cq.Workplane('' @ quoted ''XY'' @ '')''"

text \<open>The state once the module is loaded and the bridge constructed.\<close>

definition initial_state :: "config \<Rightarrow> env \<Rightarrow> state" where
  "initial_state cfg e =
     \<lparr>workspaces = [(''default'', new_workspace cfg e)],
      current_workspace_id = ''default'',
      files = [(script_file cfg, initial_script)]\<rparr>"

definition get_current_workspace :: "state \<Rightarrow> workspace option" where
  "get_current_workspace s = map_of (workspaces s) (current_workspace_id s)"

text \<open>\<open>workspaces[current_workspace_id]\<close> on a missing key.\<close>

definition key_error :: "string \<Rightarrow> exn" where
  "key_error k = Exception (quoted k)"

text \<open>
  The handlers change the dictionary that \<open>get_current_workspace\<close> returned in place;
  \<open>put_workspace\<close> writes the changed workspace back under the active name.
\<close>

definition put_workspace :: "state \<Rightarrow> workspace \<Rightarrow> state" where
  "put_workspace s ws = s\<lparr>workspaces := AList.update (current_workspace_id s) ws (workspaces s)\<rparr>"

text \<open>
  \<open>workspace["objects"][name] = obj\<close> followed by \<open>workspace["current_object"] = name\<close>.
\<close>

definition store_object :: "workspace \<Rightarrow> string \<Rightarrow> modeling_object \<Rightarrow> workspace" where
  "store_object ws name obj =
     (let ws1 = ws\<lparr>objects := AList.update name obj (objects ws)\<rparr>
      in ws1\<lparr>current_object := Some name\<rparr>)"

text \<open>\<open>with open(p, 'w') as f: f.write(c)\<close>\<close>

definition write_file :: "env \<Rightarrow> path \<Rightarrow> string \<Rightarrow> (path \<times> string) list \<Rightarrow> exn + (path \<times> string) list" where
  "write_file e p c fs =
     (case open_write e p of
        Some ex \<Rightarrow> Inl ex
      | None \<Rightarrow> Inr (AList.update p c fs))"

text \<open>\<open>with open(p, 'r') as f: f.read()\<close>\<close>

definition read_file :: "env \<Rightarrow> path \<Rightarrow> (path \<times> string) list \<Rightarrow> exn + string" where
  "read_file e p fs =
     (case map_of fs p of
        None \<Rightarrow> Inl (Exception (''[Errno 2] No such file or directory: '' @ quoted p))
      | Some c \<Rightarrow> (case open_read e p of Some ex \<Rightarrow> Inl ex | None \<Rightarrow> Inr c))"

definition exporters_export ::
  "env \<Rightarrow> pyval \<Rightarrow> path \<Rightarrow> export_type \<Rightarrow> (path \<times> string) list \<Rightarrow> exn + (path \<times> string) list" where
  "exporters_export e shape p t fs =
     (case engine_export e shape p t of
        Inl ex \<Rightarrow> Inl ex
      | Inr w \<Rightarrow> (case w of None \<Rightarrow> Inr fs | Some c \<Rightarrow> Inr (AList.update p c fs)))"

text \<open>
  The STEP export that \<open>export_object\<close> and \<open>export_step\<close> both spell out: the solid of
  the workplane when it has one, the workplane itself otherwise.
\<close>

definition export_step_file ::
  "env \<Rightarrow> pyval \<Rightarrow> path \<Rightarrow> (path \<times> string) list \<Rightarrow> exn + (path \<times> string) list" where
  "export_step_file e wp p fs =
     (if has_solid_api e wp then
        (case findSolid e wp of
           Inl ex \<Rightarrow> Inl ex
         | Inr solid \<Rightarrow> exporters_export e solid p STEP fs)
      else exporters_export e wp p STEP fs)"

text \<open>
  \<open>except Exception as e: return {...}\<close> around a block that raised \<open>ex\<close> in state \<open>s\<close>.
\<close>

definition except_Exception :: "state \<Rightarrow> exn \<Rightarrow> (string \<Rightarrow> payload) \<Rightarrow> state \<times> outcome" where
  "except_Exception s ex handler =
     (case ex of
        Exception m \<Rightarrow> (s, Returned (handler m))
      | BaseException m \<Rightarrow> (s, Raises ex))"

definition error_payload :: "string \<Rightarrow> payload" where
  "error_payload msg = [(''status'', JStr ''error''), (''message'', JStr msg)]"

text \<open>\<open>obj.get("workplane")\<close>\<close>

definition get_workplane :: "modeling_object \<Rightarrow> pyval" where
  "get_workplane obj = (case workplane obj of None \<Rightarrow> PyNone | Some v \<Rightarrow> v)"


section \<open>The handlers of \<open>cadquery_fastmcp.py\<close>\<close>

definition create_workspace :: "config \<Rightarrow> env \<Rightarrow> string \<Rightarrow> state \<Rightarrow> state \<times> outcome" where
  "create_workspace cfg e name s =
     (if map_of (workspaces s) name \<noteq> None then
        (s, Returned [(''status'', JStr ''error''),
                      (''message'', JStr (''Workspace '' @ quoted name @ '' already exists''))])
      else
        (s\<lparr>workspaces := AList.update name (new_workspace cfg e) (workspaces s),
           current_workspace_id := name\<rparr>,
         Returned [(''status'', JStr ''success''),
                   (''message'', JStr (''Created workspace: '' @ name)),
                   (''workspace_id'', JStr name)]))"

definition switch_workspace :: "string \<Rightarrow> state \<Rightarrow> state \<times> outcome" where
  "switch_workspace name s =
     (if map_of (workspaces s) name = None then
        (s, Returned [(''status'', JStr ''error''),
                      (''message'', JStr (''Workspace '' @ quoted name @ '' does not exist''))])
      else
        (s\<lparr>current_workspace_id := name\<rparr>,
         Returned [(''status'', JStr ''success''),
                   (''message'', JStr (''Switched to workspace: '' @ name)),
                   (''workspace_id'', JStr name)]))"

definition get_workspace_info :: "config \<Rightarrow> state \<Rightarrow> state \<times> outcome" where
  "get_workspace_info cfg s =
     (case get_current_workspace s of
        None \<Rightarrow> (s, Raises (key_error (current_workspace_id s)))
      | Some ws \<Rightarrow>
          (s, Returned [(''workspace_id'', JStr (current_workspace_id s)),
                        (''object_count'', JInt (dict_len (objects ws))),
                        (''objects'', JList (map JStr (dict_keys (objects ws)))),
                        (''current_object'', (case current_object ws of None \<Rightarrow> JNone | Some n \<Rightarrow> JStr n)),
                        (''temp_directory'', JStr (temp_dir cfg))]))"

definition create_box ::
  "config \<Rightarrow> env \<Rightarrow> real \<Rightarrow> real \<Rightarrow> real \<Rightarrow> bool \<Rightarrow> string option \<Rightarrow> state \<Rightarrow> state \<times> outcome" where
  "create_box cfg e width len height centered name0 s =
     (case get_current_workspace s of
        None \<Rightarrow> (s, Raises (key_error (current_workspace_id s)))
      | Some ws \<Rightarrow>
          let name = (case name0 of None \<Rightarrow> ''box_'' @ str_nat (dict_len (objects ws)) | Some n \<Rightarrow> n);
              stl_path = os_path_join (temp_dir cfg) (name @ ''.stl'');
              result = [(''status'', JStr ''success''),
                        (''message'', JStr (''Created box: '' @ name)),
                        (''object_id'', JStr name),
                        (''dimensions'', JDict [(''width'', JFloat width), (''length'', JFloat len),
                                               (''height'', JFloat height)]),
                        (''files'', JDict [(''stl'', JStr stl_path)])]
          in
          if CADQUERY_AVAILABLE cfg then
            (case cq_box e width len height centered of
               Inl ex \<Rightarrow> (s, Raises ex)
             | Inr box \<Rightarrow>
                 let s1 = put_workspace s (store_object ws name
                            \<lparr>params = Box width len height centered, workplane = Some box\<rparr>)
                 in (case exporters_export e box stl_path ByExtension (files s1) of
                       Inl ex \<Rightarrow> (s1, Raises ex)
                     | Inr fs \<Rightarrow> (s1\<lparr>files := fs\<rparr>, Returned result)))
          else
            (let s1 = put_workspace s (store_object ws name
                        \<lparr>params = Box width len height centered, workplane = None\<rparr>)
             in (case write_file e stl_path ''Mock STL file content'' (files s1) of
                   Inl ex \<Rightarrow> (s1, Raises ex)
                 | Inr fs \<Rightarrow> (s1\<lparr>files := fs\<rparr>, Returned result))))"

definition create_cylinder ::
  "config \<Rightarrow> env \<Rightarrow> real \<Rightarrow> real \<Rightarrow> bool \<Rightarrow> string option \<Rightarrow> state \<Rightarrow> state \<times> outcome" where
  "create_cylinder cfg e radius height centered name0 s =
     (case get_current_workspace s of
        None \<Rightarrow> (s, Raises (key_error (current_workspace_id s)))
      | Some ws \<Rightarrow>
          let name = (case name0 of None \<Rightarrow> ''cylinder_'' @ str_nat (dict_len (objects ws)) | Some n \<Rightarrow> n);
              stl_path = os_path_join (temp_dir cfg) (name @ ''.stl'');
              result = [(''status'', JStr ''success''),
                        (''message'', JStr (''Created cylinder: '' @ name)),
                        (''object_id'', JStr name),
                        (''dimensions'', JDict [(''radius'', JFloat radius), (''height'', JFloat height)]),
                        (''files'', JDict [(''stl'', JStr stl_path)])]
          in
          if CADQUERY_AVAILABLE cfg then
            (case cq_cylinder e height radius of
               Inl ex \<Rightarrow> (s, Raises ex)
             | Inr cylinder \<Rightarrow>
                 let s1 = put_workspace s (store_object ws name
                            \<lparr>params = Cylinder radius height centered, workplane = Some cylinder\<rparr>)
                 in (case exporters_export e cylinder stl_path ByExtension (files s1) of
                       Inl ex \<Rightarrow> (s1, Raises ex)
                     | Inr fs \<Rightarrow> (s1\<lparr>files := fs\<rparr>, Returned result)))
          else
            (let s1 = put_workspace s (store_object ws name
                        \<lparr>params = Cylinder radius height centered, workplane = None\<rparr>)
             in (case write_file e stl_path ''Mock STL file content'' (files s1) of
                   Inl ex \<Rightarrow> (s1, Raises ex)
                 | Inr fs \<Rightarrow> (s1\<lparr>files := fs\<rparr>, Returned result))))"

text \<open>
  The \<open>if\<close>/\<open>elif\<close> chain of \<open>boolean_operation\<close> on the operation: the engine call of
  a known operation, \<open>None\<close> for the \<open>else\<close> branch.
\<close>

definition apply_boolean :: "env \<Rightarrow> string \<Rightarrow> pyval \<Rightarrow> pyval \<Rightarrow> (exn + pyval) option" where
  "apply_boolean e operation target_obj tool_obj =
     (if operation = ''union'' then Some (wp_union e target_obj tool_obj)
      else if operation = ''subtract'' then Some (wp_cut e target_obj tool_obj)
      else if operation = ''intersect'' then Some (wp_intersect e target_obj tool_obj)
      else None)"

definition boolean_operation ::
  "config \<Rightarrow> env \<Rightarrow> string \<Rightarrow> string \<Rightarrow> string \<Rightarrow> string option \<Rightarrow> state \<Rightarrow> state \<times> outcome" where
  "boolean_operation cfg e operation target tool name0 s =
     (case get_current_workspace s of
        None \<Rightarrow> (s, Raises (key_error (current_workspace_id s)))
      | Some ws \<Rightarrow>
          (case map_of (objects ws) target of
             None \<Rightarrow> (s, Returned [(''status'', JStr ''error''),
                                   (''message'', JStr (''Target object '' @ quoted target @ '' not found''))])
           | Some target_entry \<Rightarrow>
          (case map_of (objects ws) tool of
             None \<Rightarrow> (s, Returned [(''status'', JStr ''error''),
                                   (''message'', JStr (''Tool object '' @ quoted tool @ '' not found''))])
           | Some tool_entry \<Rightarrow>
          let name = (case name0 of None \<Rightarrow> ''boolean_'' @ str_nat (dict_len (objects ws)) | Some n \<Rightarrow> n);
              stl_path = os_path_join (temp_dir cfg) (name @ ''.stl'');
              result = [(''status'', JStr ''success''),
                        (''message'', JStr (''Created '' @ operation @ '' between '' @ target @ '' and '' @ tool)),
                        (''object_id'', JStr name),
                        (''files'', JDict [(''stl'', JStr stl_path)])]
          in
          if CADQUERY_AVAILABLE cfg then
            (case workplane target_entry of
               None \<Rightarrow> (s, Raises (key_error ''workplane''))
             | Some target_obj \<Rightarrow>
            (case workplane tool_entry of
               None \<Rightarrow> (s, Raises (key_error ''workplane''))
             | Some tool_obj \<Rightarrow>
            (case apply_boolean e operation target_obj tool_obj of
               None \<Rightarrow> (s, Returned [(''status'', JStr ''error''),
                                     (''message'', JStr (''Unknown boolean operation: '' @ operation))])
             | Some r \<Rightarrow>
            (case r of
               Inl ex \<Rightarrow> (s, Raises ex)
             | Inr res \<Rightarrow>
                 let s1 = put_workspace s (store_object ws name
                            \<lparr>params = Boolean operation target tool, workplane = Some res\<rparr>)
                 in (case exporters_export e res stl_path ByExtension (files s1) of
                       Inl ex \<Rightarrow> (s1, Raises ex)
                     | Inr fs \<Rightarrow> (s1\<lparr>files := fs\<rparr>, Returned result))))))
          else
            (let s1 = put_workspace s (store_object ws name
                        \<lparr>params = Boolean operation target tool, workplane = None\<rparr>)
             in (case write_file e stl_path
                        (''Mock STL file for '' @ operation @ '' of '' @ target @ '' and '' @ tool) (files s1) of
                   Inl ex \<Rightarrow> (s1, Raises ex)
                 | Inr fs \<Rightarrow> (s1\<lparr>files := fs\<rparr>, Returned result))))))"

definition render_current_object :: "config \<Rightarrow> env \<Rightarrow> state \<Rightarrow> state \<times> outcome" where
  "render_current_object cfg e s =
     (case get_current_workspace s of
        None \<Rightarrow> (s, Raises (key_error (current_workspace_id s)))
      | Some ws \<Rightarrow>
          (case current_object ws of
             None \<Rightarrow> (s, Returned [(''status'', JStr ''error''),
                                   (''message'', JStr ''No current object selected'')])
           | Some obj_name \<Rightarrow>
               let mock_image_path = os_path_join (temp_dir cfg) (obj_name @ ''.png'');
                   handler = (\<lambda>m. [(''status'', JStr ''error''),
                                    (''message'', JStr (''Error rendering object: '' @ m))])
               in
               if CADQUERY_AVAILABLE cfg then
                 (case ctx_info e (''Rendering '' @ obj_name @ ''...'') of
                    Some ex \<Rightarrow> except_Exception s ex handler
                  | None \<Rightarrow>
                      (case write_file e mock_image_path ''Mock PNG content'' (files s) of
                         Inl ex \<Rightarrow> except_Exception s ex handler
                       | Inr fs \<Rightarrow>
                           (s\<lparr>files := fs\<rparr>,
                            Returned [(''status'', JStr ''success''),
                                      (''message'', JStr (''Rendered '' @ obj_name)),
                                      (''object_id'', JStr obj_name),
                                      (''files'', JDict [(''png'', JStr mock_image_path)])])))
               else
                 (case write_file e mock_image_path ''Mock PNG content'' (files s) of
                    Inl ex \<Rightarrow> (s, Raises ex)
                  | Inr fs \<Rightarrow>
                      (s\<lparr>files := fs\<rparr>,
                       Returned [(''status'', JStr ''success''),
                                 (''message'', JStr (''Rendered '' @ obj_name @ '' (mock)'')),
                                 (''object_id'', JStr obj_name),
                                 (''files'', JDict [(''png'', JStr mock_image_path)])]))))"


text \<open>The three payloads of the check that follows a STEP export.\<close>

definition step_invalid_error :: payload where
  "step_invalid_error =
     [(''status'', JStr ''error''),
      (''message'', JStr ''Exported file does not appear to be a valid STEP file'')]"

definition step_unreadable_error :: "string \<Rightarrow> payload" where
  "step_unreadable_error m =
     [(''status'', JStr ''error''),
      (''message'', JStr (''Exported file validation failed: '' @ m))]"

definition step_empty_error :: payload where
  "step_empty_error =
     [(''status'', JStr ''error''),
      (''message'', JStr (''Exported file is empty or wasn'' @ [CHR 0x27] @ ''t created properly''))]"

definition unsupported_format_error :: "string \<Rightarrow> payload" where
  "unsupported_format_error fmt =
     [(''status'', JStr ''error''),
      (''message'', JStr (''Unsupported export format: '' @ fmt @ ''. Supported formats: stl, step, stp''))]"

definition export_failed_error :: "string \<Rightarrow> payload" where
  "export_failed_error m =
     [(''status'', JStr ''error''), (''message'', JStr (''Export failed: '' @ m))]"

text \<open>The dictionary that \<open>export_object\<close> returns at its end.\<close>

definition export_object_result :: "string \<Rightarrow> string \<Rightarrow> path \<Rightarrow> payload" where
  "export_object_result name extension output_path =
     [(''status'', JStr ''success''),
      (''message'', JStr (''Exported '' @ name @ '' to '' @ extension @ '' format'')),
      (''object_id'', JStr name),
      (''files'', JDict [(extension, JStr output_path)])]"

definition export_object ::
  "config \<Rightarrow> env \<Rightarrow> string \<Rightarrow> string \<Rightarrow> bool \<Rightarrow> state \<Rightarrow> state \<times> outcome" where
  "export_object cfg e name format0 validate s =
     (case get_current_workspace s of
        None \<Rightarrow> (s, Raises (key_error (current_workspace_id s)))
      | Some ws \<Rightarrow>
          (case map_of (objects ws) name of
             None \<Rightarrow> (s, Returned [(''status'', JStr ''error''),
                                   (''message'', JStr (''Object '' @ quoted name @ '' not found''))])
           | Some obj \<Rightarrow>
          let fmt = lower format0;
              is_step_format = (fmt = ''step'' \<or> fmt = ''stp'');
              extension = fmt;
              output_path = os_path_join (temp_dir cfg) (name @ ''.'' @ extension);
              result = export_object_result name extension output_path
          in
          if CADQUERY_AVAILABLE cfg then
            (let wp = get_workplane obj in
             if fmt = ''stl'' then
               (case exporters_export e wp output_path ByExtension (files s) of
                  Inl ex \<Rightarrow> except_Exception s ex export_failed_error
                | Inr fs \<Rightarrow> (s\<lparr>files := fs\<rparr>, Returned result))
             else if is_step_format then
               (case export_step_file e wp output_path (files s) of
                  Inl ex \<Rightarrow> except_Exception s ex export_failed_error
                | Inr fs \<Rightarrow>
                    let s1 = s\<lparr>files := fs\<rparr> in
                    if validate \<and> is_step_format then
                      (case map_of fs output_path of
                         None \<Rightarrow> (s1, Returned step_empty_error)
                       | Some content \<Rightarrow>
                           if length content > 0 then
                             (case open_read e output_path of
                                Some ex \<Rightarrow> except_Exception s1 ex step_unreadable_error
                              | None \<Rightarrow>
                                  let first_line = readline content in
                                  if first_line = [] \<or> \<not> str_contains ''ISO-10303'' first_line
                                  then (s1, Returned step_invalid_error)
                                  else (s1, Returned result))
                           else (s1, Returned step_empty_error))
                    else (s1, Returned result))
             else (s, Returned (unsupported_format_error fmt)))
          else
            (case write_file e output_path
                    (if is_step_format then ''Mock STEP file content for '' @ name
                     else ''Mock '' @ upper fmt @ '' file content for '' @ name) (files s) of
               Inl ex \<Rightarrow> (s, Raises ex)
             | Inr fs \<Rightarrow> (s\<lparr>files := fs\<rparr>, Returned result))))"

text \<open>
  The destination of \<open>export_step\<close>: \<open>if filepath:\<close> is false for \<open>None\<close> and for the
  empty string.
\<close>

definition step_output_path :: "config \<Rightarrow> string \<Rightarrow> string option \<Rightarrow> path" where
  "step_output_path cfg name filepath =
     (case filepath of
        None \<Rightarrow> os_path_join (temp_dir cfg) (name @ ''.step'')
      | Some fp \<Rightarrow>
          if fp \<noteq> [] then
            (if \<not> (endswith (lower fp) ''.step'' \<or> endswith (lower fp) ''.stp'')
             then fp @ ''.step'' else fp)
          else os_path_join (temp_dir cfg) (name @ ''.step''))"

definition export_step ::
  "config \<Rightarrow> env \<Rightarrow> string \<Rightarrow> string option \<Rightarrow> state \<Rightarrow> state \<times> outcome" where
  "export_step cfg e name filepath s =
     (case get_current_workspace s of
        None \<Rightarrow> (s, Raises (key_error (current_workspace_id s)))
      | Some ws \<Rightarrow>
          (case map_of (objects ws) name of
             None \<Rightarrow> (s, Returned [(''status'', JStr ''error''),
                                   (''message'', JStr (''Object '' @ quoted name @ '' not found''))])
           | Some obj \<Rightarrow>
          let output_path = step_output_path cfg name filepath;
              stl_path = os_path_join (temp_dir cfg) (name @ ''.stl'');
              handler = (\<lambda>m. [(''status'', JStr ''error''),
                               (''message'', JStr (''STEP export failed: '' @ m))])
          in
          if CADQUERY_AVAILABLE cfg then
            (let wp = get_workplane obj in
             case export_step_file e wp output_path (files s) of
               Inl ex \<Rightarrow> except_Exception s ex handler
             | Inr fs1 \<Rightarrow>
                 (case exporters_export e wp stl_path ByExtension fs1 of
                    Inl ex \<Rightarrow> except_Exception (s\<lparr>files := fs1\<rparr>) ex handler
                  | Inr fs2 \<Rightarrow>
                      (s\<lparr>files := fs2\<rparr>,
                       Returned [(''status'', JStr ''success''),
                                 (''message'', JStr (''Exported '' @ name @ '' as STEP file'')),
                                 (''object_id'', JStr name),
                                 (''files'', JDict [(''step'', JStr output_path),
                                                   (''stl'', JStr stl_path)])])))
          else
            (let output_path = (if output_path \<noteq> [] then output_path
                                else os_path_join (temp_dir cfg) (name @ ''.step''))
             in
             case write_file e output_path (''Mock STEP file content for '' @ name) (files s) of
               Inl ex \<Rightarrow> (s, Raises ex)
             | Inr fs1 \<Rightarrow>
                 (case write_file e stl_path (''Mock STL file content for '' @ name) fs1 of
                    Inl ex \<Rightarrow> (s\<lparr>files := fs1\<rparr>, Raises ex)
                  | Inr fs2 \<Rightarrow>
                      (s\<lparr>files := fs2\<rparr>,
                       Returned [(''status'', JStr ''success''),
                                 (''message'', JStr (''Exported '' @ name @ '' as STEP file'')),
                                 (''object_id'', JStr name),
                                 (''files'', JDict [(''step'', JStr output_path),
                                                   (''stl'', JStr stl_path)])])))))"

definition execute_cq_script ::
  "config \<Rightarrow> env \<Rightarrow> string \<Rightarrow> string option \<Rightarrow> state \<Rightarrow> state \<times> outcome" where
  "execute_cq_script cfg e script name0 s =
     (case get_current_workspace s of
        None \<Rightarrow> (s, Raises (key_error (current_workspace_id s)))
      | Some ws \<Rightarrow>
          let name = (case name0 of None \<Rightarrow> ''script_'' @ str_nat (dict_len (objects ws)) | Some n \<Rightarrow> n);
              stl_path = os_path_join (temp_dir cfg) (name @ ''.stl'');
              handler = (\<lambda>m. [(''status'', JStr ''error''),
                               (''message'', JStr (''Error executing script: '' @ m))])
          in
          if CADQUERY_AVAILABLE cfg then
            (case exec_script e script of
               Inl ex \<Rightarrow> except_Exception s ex handler
             | Inr bound \<Rightarrow>
                 (case bound of
                    None \<Rightarrow>
                      (s, Returned [(''status'', JStr ''error''),
                                    (''message'', JStr (''Script must define a '' @ quoted ''result''
                                        @ '' variable containing the CadQuery object''))])
                  | Some res \<Rightarrow>
                      let s1 = put_workspace s (store_object ws name
                                 \<lparr>params = Script script, workplane = Some res\<rparr>)
                      in (case exporters_export e res stl_path ByExtension (files s1) of
                            Inl ex \<Rightarrow> except_Exception s1 ex handler
                          | Inr fs \<Rightarrow>
                              (s1\<lparr>files := fs\<rparr>,
                               Returned [(''status'', JStr ''success''),
                                         (''message'', JStr (''Created object from script: '' @ name)),
                                         (''object_id'', JStr name),
                                         (''files'', JDict [(''stl'', JStr stl_path)])]))))
          else
            (let s1 = put_workspace s (store_object ws name
                        \<lparr>params = Script script, workplane = None\<rparr>)
             in (case write_file e stl_path ''Mock STL file content from script'' (files s1) of
                   Inl ex \<Rightarrow> (s1, Raises ex)
                 | Inr fs \<Rightarrow>
                     (s1\<lparr>files := fs\<rparr>,
                      Returned [(''status'', JStr ''success''),
                                (''message'', JStr (''Created object from script (mock): '' @ name)),
                                (''object_id'', JStr name),
                                (''files'', JDict [(''stl'', JStr stl_path)])]))))"

section \<open>The handlers of \<open>cq_editor_bridge.py\<close>\<close>

text \<open>
  \<open>bridge = integrate_with_mcp_server(mcp, get_current_workspace)\<close>: the bridge's
  \<open>get_workspace\<close> is the server's \<open>get_current_workspace\<close>.
\<close>

definition bridge_get_workspace :: "(state \<Rightarrow> workspace option) option" where
  "bridge_get_workspace = Some get_current_workspace"

definition launch_cq_editor :: "env \<Rightarrow> state \<Rightarrow> state \<times> outcome" where
  "launch_cq_editor e s =
     (if start_cq_editor e then
        (s, Returned [(''status'', JStr ''success''),
                      (''message'', JStr ''CadQuery Editor launched successfully'')])
      else
        (s, Returned [(''status'', JStr ''error''),
                      (''message'', JStr ''Failed to launch CadQuery Editor'')]))"

definition close_cq_editor :: "env \<Rightarrow> state \<Rightarrow> state \<times> outcome" where
  "close_cq_editor e s =
     (if stop_cq_editor e then
        (s, Returned [(''status'', JStr ''success''),
                      (''message'', JStr ''CadQuery Editor closed successfully'')])
      else
        (s, Returned [(''status'', JStr ''error''),
                      (''message'', JStr ''Failed to close CadQuery Editor'')]))"

text \<open>
  \<open>update_cq_script\<close> with \<open>bridge.update_script\<close> inlined: the write inside
  \<open>try\<close>, \<open>False\<close> on an \<open>Exception\<close>.
\<close>

definition update_cq_script :: "config \<Rightarrow> env \<Rightarrow> string \<Rightarrow> state \<Rightarrow> state \<times> outcome" where
  "update_cq_script cfg e script s =
     (case write_file e (script_file cfg) script (files s) of
        Inl ex \<Rightarrow>
          except_Exception s ex
            (\<lambda>m. [(''status'', JStr ''error''),
                  (''message'', JStr ''Failed to update script in CadQuery Editor'')])
      | Inr fs \<Rightarrow>
          (s\<lparr>files := fs\<rparr>,
           Returned [(''status'', JStr ''success''),
                     (''message'', JStr ''Script updated in CadQuery Editor''),
                     (''script_file'', JStr (script_file cfg))]))"

definition sync_object_from_editor :: "config \<Rightarrow> env \<Rightarrow> string option \<Rightarrow> state \<Rightarrow> state \<times> outcome" where
  "sync_object_from_editor cfg e name0 s =
     (case bridge_get_workspace of
        None \<Rightarrow>
          (s, Returned [(''status'', JStr ''error''),
                        (''message'', JStr ''Workspace management function not provided to bridge'')])
      | Some get_workspace \<Rightarrow>
          (case get_workspace s of
             None \<Rightarrow> (s, Raises (key_error (current_workspace_id s)))
           | Some ws \<Rightarrow>
               let name = (case name0 of None \<Rightarrow> ''synced_'' @ str_nat (dict_len (objects ws)) | Some n \<Rightarrow> n)
               in (case read_file e (script_file cfg) (files s) of
                     Inl ex \<Rightarrow>
                       except_Exception s ex
                         (\<lambda>m. [(''status'', JStr ''error''),
                               (''message'', JStr (''Error syncing from CQ-Editor: '' @ m))])
                   | Inr script \<Rightarrow>
                       (s, Returned [(''status'', JStr ''success''),
                                     (''message'', JStr (''Synced object from CQ-Editor: '' @ name)),
                                     (''object_id'', JStr name),
                                     (''script'', JStr script)]))))"

section \<open>Requests and runs\<close>

datatype op =
    CreateWorkspace string
  | SwitchWorkspace string
  | GetWorkspaceInfo
  | CreateBox real real real bool "string option"
  | CreateCylinder real real bool "string option"
  | BooleanOperation string string string "string option"
  | RenderCurrentObject
  | ExportObject string string bool
  | ExportStep string "string option"
  | ExecuteCqScript string "string option"
  | LaunchCqEditor
  | CloseCqEditor
  | UpdateCqScript string
  | SyncObjectFromEditor "string option"

fun step :: "config \<Rightarrow> env \<Rightarrow> op \<Rightarrow> state \<Rightarrow> state \<times> outcome" where
  "step cfg e (CreateWorkspace name) s = create_workspace cfg e name s"
| "step cfg e (SwitchWorkspace name) s = switch_workspace name s"
| "step cfg e GetWorkspaceInfo s = get_workspace_info cfg s"
| "step cfg e (CreateBox w l h c name) s = create_box cfg e w l h c name s"
| "step cfg e (CreateCylinder r h c name) s = create_cylinder cfg e r h c name s"
| "step cfg e (BooleanOperation operation target tool name) s = boolean_operation cfg e operation target tool name s"
| "step cfg e RenderCurrentObject s = render_current_object cfg e s"
| "step cfg e (ExportObject name fmt validate) s = export_object cfg e name fmt validate s"
| "step cfg e (ExportStep name filepath) s = export_step cfg e name filepath s"
| "step cfg e (ExecuteCqScript script name) s = execute_cq_script cfg e script name s"
| "step cfg e LaunchCqEditor s = launch_cq_editor e s"
| "step cfg e CloseCqEditor s = close_cq_editor e s"
| "step cfg e (UpdateCqScript script) s = update_cq_script cfg e script s"
| "step cfg e (SyncObjectFromEditor name) s = sync_object_from_editor cfg e name s"

text \<open>
  A run of the server: requests one after the other, each with what the collaborators
  answer while it is served. A request that raises leaves the state as it was when the
  exception left the handler, and the server goes on.
\<close>

fun run :: "config \<Rightarrow> (env \<times> op) list \<Rightarrow> state \<Rightarrow> state" where
  "run cfg [] s = s"
| "run cfg ((e, x) # rest) s = run cfg rest (fst (step cfg e x s))"


section \<open>Predicates of the specification\<close>

text \<open>
  A tagged result: a dictionary whose \<open>status\<close> is \<open>success\<close> or \<open>error\<close> and whose
  \<open>message\<close> is a string.
\<close>

fun is_str :: "jval option \<Rightarrow> bool" where
  "is_str (Some (JStr m)) = True"
| "is_str _ = False"

definition tagged :: "payload \<Rightarrow> bool" where
  "tagged p =
     ((map_of p ''status'' = Some (JStr ''success'') \<or> map_of p ''status'' = Some (JStr ''error''))
      \<and> is_str (map_of p ''message''))"

definition succeeded :: "payload \<Rightarrow> bool" where
  "succeeded p = (map_of p ''status'' = Some (JStr ''success''))"

text \<open>The invariant of a workspace: the current object, if set, is a registered one.\<close>

definition current_object_ok :: "workspace \<Rightarrow> bool" where
  "current_object_ok ws =
     (case current_object ws of None \<Rightarrow> True | Some n \<Rightarrow> map_of (objects ws) n \<noteq> None)"

text \<open>
  What one request can do to the workspace table: nothing but a switch to a registered
  workspace, the creation of a workspace that becomes active, or one registration in the
  active workspace.
\<close>

definition request_effect :: "config \<Rightarrow> env \<Rightarrow> state \<Rightarrow> state \<Rightarrow> bool" where
  "request_effect cfg e s s' =
     ((workspaces s' = workspaces s
         \<and> (current_workspace_id s' = current_workspace_id s
              \<or> map_of (workspaces s) (current_workspace_id s') \<noteq> None))
      \<or> (map_of (workspaces s) (current_workspace_id s') = None
           \<and> workspaces s' = AList.update (current_workspace_id s') (new_workspace cfg e) (workspaces s))
      \<or> (\<exists>ws name obj. get_current_workspace s = Some ws
           \<and> (CADQUERY_AVAILABLE cfg \<longrightarrow> workplane obj \<noteq> None)
           \<and> workspaces s' = AList.update (current_workspace_id s) (store_object ws name obj) (workspaces s)
           \<and> current_workspace_id s' = current_workspace_id s))"

text \<open>
  The invariant of the server: an active workspace exists, every workspace satisfies
  \<open>current_object_ok\<close>, and with the engine available every object has its
  \<open>workplane\<close> key.
\<close>

definition state_ok :: "config \<Rightarrow> state \<Rightarrow> bool" where
  "state_ok cfg s =
     (get_current_workspace s \<noteq> None
      \<and> (\<forall>w ws. map_of (workspaces s) w = Some ws \<longrightarrow>
            current_object_ok ws
            \<and> (CADQUERY_AVAILABLE cfg \<longrightarrow>
                 (\<forall>n obj. map_of (objects ws) n = Some obj \<longrightarrow> workplane obj \<noteq> None))))"


section \<open>Concrete collaborators and states for the examples\<close>

definition real_cfg :: config where
  "real_cfg = \<lparr>CADQUERY_AVAILABLE = True, temp_dir = ''/tmp/cq'', bridge_temp_dir = ''/tmp/br''\<rparr>"

definition mock_cfg :: config where
  "mock_cfg = \<lparr>CADQUERY_AVAILABLE = False, temp_dir = ''/tmp/cq'', bridge_temp_dir = ''/tmp/br''\<rparr>"

definition step_text :: string where
  "step_text = ''ISO-10303-21;'' @ [CHR 0x0A] @ ''HEADER;''"

text \<open>
  An engine and a file system where every call succeeds: the STEP export writes a file
  that starts with the STEP signature, every other export writes an STL text.
\<close>

definition ok_env :: env where
  "ok_env =
     \<lparr>cq_Assembly = PyObj 0,
      cq_box = (\<lambda>w l h c. Inr (PyObj 1)),
      cq_cylinder = (\<lambda>h r. Inr (PyObj 2)),
      wp_union = (\<lambda>a b. Inr (PyObj 3)),
      wp_cut = (\<lambda>a b. Inr (PyObj 3)),
      wp_intersect = (\<lambda>a b. Inr (PyObj 3)),
      has_solid_api = (\<lambda>v. True),
      findSolid = (\<lambda>v. Inr (PyObj 4)),
      engine_export = (\<lambda>v p t. Inr (Some (case t of STEP \<Rightarrow> step_text | ByExtension \<Rightarrow> ''solid''))),
      exec_script = (\<lambda>src. Inr (Some (PyObj 5))),
      open_write = (\<lambda>p. None),
      open_read = (\<lambda>p. None),
      ctx_info = (\<lambda>m. None),
      start_cq_editor = True,
      stop_cq_editor = True\<rparr>"

text \<open>
  The same collaborators, except that the STEP export writes the given text, or returns
  without having written a file for \<open>None\<close>.
\<close>

definition step_env :: "string option \<Rightarrow> env" where
  "step_env written =
     ok_env\<lparr>engine_export :=
       (\<lambda>v p t. case t of STEP \<Rightarrow> Inr written | ByExtension \<Rightarrow> Inr (Some ''solid''))\<rparr>"

text \<open>The server after \<open>create_box(2, 3, 4, True, "b1")\<close> and \<open>create_cylinder(1, 5, True, "c1")\<close>.\<close>

definition two_solids :: "config \<Rightarrow> state" where
  "two_solids cfg =
     run cfg [(ok_env, CreateBox 2 3 4 True (Some ''b1'')),
              (ok_env, CreateCylinder 1 5 True (Some ''c1''))]
       (initial_state cfg ok_env)"


text \<open>
  \<open>registered_as s p name prm\<close>: the payload \<open>p\<close> reports success and the object id
  \<open>name\<close>, and in the state \<open>s\<close> the active workspace holds under the key \<open>name\<close> an
  object with the parameters \<open>prm\<close>, which is the current object.
\<close>

definition registered_as :: "state \<Rightarrow> payload \<Rightarrow> string \<Rightarrow> obj_params \<Rightarrow> bool" where
  "registered_as s p name prm =
     (succeeded p
      \<and> map_of p ''object_id'' = Some (JStr name)
      \<and> (case get_current_workspace s of
            None \<Rightarrow> False
          | Some ws \<Rightarrow>
              current_object ws = Some name
              \<and> (case map_of (objects ws) name of
                    None \<Rightarrow> False
                  | Some obj \<Rightarrow> params obj = prm)))"


section \<open>Auxiliary facts\<close>

text \<open>The definitions to unfold when a handler is evaluated on a concrete request.\<close>

lemmas handler_defs = create_workspace_def switch_workspace_def get_workspace_info_def
  create_box_def create_cylinder_def boolean_operation_def render_current_object_def
  export_object_def export_step_def execute_cq_script_def launch_cq_editor_def
  close_cq_editor_def update_cq_script_def sync_object_from_editor_def

lemmas helper_defs = export_object_result_def get_current_workspace_def put_workspace_def store_object_def
  write_file_def read_file_def exporters_export_def export_step_file_def except_Exception_def
  get_workplane_def os_path_join_def startswith_def endswith_def new_workspace_def
  initial_state_def script_file_def key_error_def quoted_def dict_len_def dict_keys_def
  apply_boolean_def step_output_path_def bridge_get_workspace_def Let_def

lemmas example_defs = real_cfg_def mock_cfg_def ok_env_def step_text_def step_env_def

lemma two_solids_real:
  "two_solids real_cfg =
     \<lparr>workspaces = [(''default'',
         \<lparr>objects = [(''b1'', \<lparr>params = Box 2 3 4 True, workplane = Some (PyObj 1)\<rparr>),
                     (''c1'', \<lparr>params = Cylinder 1 5 True, workplane = Some (PyObj 2)\<rparr>)],
          assembly = PyObj 0, current_object = Some ''c1''\<rparr>)],
      current_workspace_id = ''default'',
      files = [(''/tmp/br/current_script.py'', initial_script),
               (''/tmp/cq/b1.stl'', ''solid''), (''/tmp/cq/c1.stl'', ''solid'')]\<rparr>"
  by (simp add: two_solids_def handler_defs helper_defs example_defs)

lemma two_solids_mock:
  "two_solids mock_cfg =
     \<lparr>workspaces = [(''default'',
         \<lparr>objects = [(''b1'', \<lparr>params = Box 2 3 4 True, workplane = None\<rparr>),
                     (''c1'', \<lparr>params = Cylinder 1 5 True, workplane = None\<rparr>)],
          assembly = PyNone, current_object = Some ''c1''\<rparr>)],
      current_workspace_id = ''default'',
      files = [(''/tmp/br/current_script.py'', initial_script),
               (''/tmp/cq/b1.stl'', ''Mock STL file content''), (''/tmp/cq/c1.stl'', ''Mock STL file content'')]\<rparr>"
  by (simp add: two_solids_def handler_defs helper_defs example_defs)

lemma get_put_workspace [simp]:
  "get_current_workspace (put_workspace s ws) = Some ws"
  by (simp add: get_current_workspace_def put_workspace_def update_conv')

lemma get_workspace_files [simp]:
  "get_current_workspace (s\<lparr>files := fs\<rparr>) = get_current_workspace s"
  by (simp add: get_current_workspace_def)

lemma store_object_lookup [simp]:
  "map_of (objects (store_object ws name obj)) name = Some obj"
  "current_object (store_object ws name obj) = Some name"
  by (simp_all add: store_object_def update_conv')


lemma except_Exception_fst [simp]: "fst (except_Exception s ex h) = s"
  by (simp add: except_Exception_def split: exn.splits)

lemma objects_store_object:
  "objects (store_object ws name obj) = AList.update name obj (objects ws)"
  by (simp add: store_object_def)

lemma str_nat_small [simp]:
  "str_nat 0 = ''0''" "str_nat (Suc 0) = ''1''" "str_nat (Suc (Suc 0)) = ''2''" "str_nat 2 = ''2''"
  by (simp_all add: str_nat.simps digit_char_def)

lemma create_box_returned:
  assumes "get_current_workspace s = Some ws"
    and "create_box cfg e w l h c name0 s = (s', Returned p)"
  shows "\<exists>obj. get_current_workspace s' =
            Some (store_object ws (case name0 of None \<Rightarrow> ''box_'' @ str_nat (dict_len (objects ws)) | Some n \<Rightarrow> n) obj)
         \<and> map_of p ''object_id'' =
            Some (JStr (case name0 of None \<Rightarrow> ''box_'' @ str_nat (dict_len (objects ws)) | Some n \<Rightarrow> n))"
  using assms
  by (auto simp: create_box_def Let_def split: sum.splits if_splits)

lemma three_boxes_run:
  "\<exists>s1 p1 s2 p2 s3 p3.
     create_box mock_cfg ok_env 1 1 1 True None (initial_state mock_cfg ok_env) = (s1, Returned p1)
     \<and> create_box mock_cfg ok_env 1 1 1 True None s1 = (s2, Returned p2)
     \<and> create_box mock_cfg ok_env 1 1 1 True None s2 = (s3, Returned p3)"
  by (simp add: create_box_def helper_defs example_defs)


lemma create_box_registers:
  assumes "get_current_workspace s = Some ws"
    and "create_box cfg e w l h c name0 s = (s', Returned p)"
  shows "registered_as s' p
           (case name0 of None \<Rightarrow> ''box_'' @ str_nat (dict_len (objects ws)) | Some n \<Rightarrow> n)
           (Box w l h c)"
  using assms
  by (auto simp: create_box_def Let_def registered_as_def succeeded_def split: sum.splits if_splits)

lemma create_cylinder_registers:
  assumes "get_current_workspace s = Some ws"
    and "create_cylinder cfg e r h c name0 s = (s', Returned p)"
  shows "registered_as s' p
           (case name0 of None \<Rightarrow> ''cylinder_'' @ str_nat (dict_len (objects ws)) | Some n \<Rightarrow> n)
           (Cylinder r h c)"
  using assms
  by (auto simp: create_cylinder_def Let_def registered_as_def succeeded_def split: sum.splits if_splits)

lemma boolean_operation_registers:
  assumes "get_current_workspace s = Some ws"
    and "boolean_operation cfg e operation target tool name0 s = (s', Returned p)"
    and "succeeded p"
  shows "registered_as s' p
           (case name0 of None \<Rightarrow> ''boolean_'' @ str_nat (dict_len (objects ws)) | Some n \<Rightarrow> n)
           (Boolean operation target tool)"
  using assms
  by (auto simp: boolean_operation_def Let_def registered_as_def succeeded_def
           split: option.splits sum.splits if_splits)

lemma execute_cq_script_registers:
  assumes "get_current_workspace s = Some ws"
    and "execute_cq_script cfg e script name0 s = (s', Returned p)"
    and "succeeded p"
  shows "registered_as s' p
           (case name0 of None \<Rightarrow> ''script_'' @ str_nat (dict_len (objects ws)) | Some n \<Rightarrow> n)
           (Script script)"
  using assms
  by (auto simp: execute_cq_script_def Let_def registered_as_def succeeded_def except_Exception_def
           split: option.splits sum.splits if_splits exn.splits)

lemma create_box_returns:
  assumes "get_current_workspace s = Some ws"
    and "CADQUERY_AVAILABLE cfg \<and> cq_box e w l h c = Inr v
           \<and> engine_export e v (os_path_join (temp_dir cfg) ((''box_'' @ str_nat (dict_len (objects ws))) @ ''.stl'')) ByExtension = Inr x
         \<or> \<not> CADQUERY_AVAILABLE cfg \<and> open_write e (os_path_join (temp_dir cfg) ((''box_'' @ str_nat (dict_len (objects ws))) @ ''.stl'')) = None"
  shows "\<exists>s' p. create_box cfg e w l h c None s = (s', Returned p)"
  using assms
  by (auto simp: create_box_def Let_def exporters_export_def write_file_def split: option.splits)

lemma create_cylinder_returns:
  assumes "get_current_workspace s = Some ws"
    and "CADQUERY_AVAILABLE cfg \<and> cq_cylinder e h r = Inr v
           \<and> engine_export e v (os_path_join (temp_dir cfg) ((''cylinder_'' @ str_nat (dict_len (objects ws))) @ ''.stl'')) ByExtension = Inr x
         \<or> \<not> CADQUERY_AVAILABLE cfg \<and> open_write e (os_path_join (temp_dir cfg) ((''cylinder_'' @ str_nat (dict_len (objects ws))) @ ''.stl'')) = None"
  shows "\<exists>s' p. create_cylinder cfg e r h c None s = (s', Returned p)"
  using assms
  by (auto simp: create_cylinder_def Let_def exporters_export_def write_file_def split: option.splits)

lemma boolean_operation_returns:
  assumes "get_current_workspace s = Some ws"
    and "map_of (objects ws) target = Some t" and "map_of (objects ws) tool = Some u"
    and "CADQUERY_AVAILABLE cfg \<and> workplane t = Some a \<and> workplane u = Some b
           \<and> apply_boolean e operation a b = Some (Inr v)
           \<and> engine_export e v (os_path_join (temp_dir cfg) ((''boolean_'' @ str_nat (dict_len (objects ws))) @ ''.stl'')) ByExtension = Inr x
         \<or> \<not> CADQUERY_AVAILABLE cfg \<and> open_write e (os_path_join (temp_dir cfg) ((''boolean_'' @ str_nat (dict_len (objects ws))) @ ''.stl'')) = None"
  shows "\<exists>s' p. boolean_operation cfg e operation target tool None s = (s', Returned p) \<and> succeeded p"
  using assms
  by (auto simp: boolean_operation_def Let_def exporters_export_def write_file_def succeeded_def split: option.splits)

lemma execute_cq_script_returns:
  assumes "get_current_workspace s = Some ws"
    and "CADQUERY_AVAILABLE cfg \<and> exec_script e script = Inr (Some v)
           \<and> engine_export e v (os_path_join (temp_dir cfg) ((''script_'' @ str_nat (dict_len (objects ws))) @ ''.stl'')) ByExtension = Inr x
         \<or> \<not> CADQUERY_AVAILABLE cfg \<and> open_write e (os_path_join (temp_dir cfg) ((''script_'' @ str_nat (dict_len (objects ws))) @ ''.stl'')) = None"
  shows "\<exists>s' p. execute_cq_script cfg e script None s = (s', Returned p) \<and> succeeded p"
  using assms
  by (auto simp: execute_cq_script_def Let_def exporters_export_def write_file_def succeeded_def split: option.splits)


section \<open>Boolean operations\<close>

text \<open>
  C4. A call of \<open>boolean_operation\<close> whose target is not in the active workspace returns
  the error \<open>Target object '...' not found\<close>, one whose target is there and whose tool is
  not returns \<open>Tool object '...' not found\<close>, and in both cases the state is the one
  before the call: nothing is registered and the current object is unchanged. A call that
  returns a success payload had both operands in the workspace, and the object registered
  under the returned \<open>object_id\<close> stores the operation string and the two operand
  names as they were passed; it is the current object.
\<close>

theorem boolean_operation_operands:
  assumes "get_current_workspace s = Some ws"
  shows "(map_of (objects ws) target = None \<longrightarrow>
            boolean_operation cfg e operation target tool name0 s =
              (s, Returned [(''status'', JStr ''error''),
                            (''message'', JStr (''Target object '' @ quoted target @ '' not found''))]))
       \<and> (map_of (objects ws) target \<noteq> None \<and> map_of (objects ws) tool = None \<longrightarrow>
            boolean_operation cfg e operation target tool name0 s =
              (s, Returned [(''status'', JStr ''error''),
                            (''message'', JStr (''Tool object '' @ quoted tool @ '' not found''))]))
       \<and> (\<forall>s' p. boolean_operation cfg e operation target tool name0 s = (s', Returned p) \<and> succeeded p \<longrightarrow>
            map_of (objects ws) target \<noteq> None \<and> map_of (objects ws) tool \<noteq> None
            \<and> (\<exists>name ws' wp. map_of p ''object_id'' = Some (JStr name)
                  \<and> get_current_workspace s' = Some ws'
                  \<and> map_of (objects ws') name =
                       Some \<lparr>params = Boolean operation target tool, workplane = wp\<rparr>
                  \<and> current_object ws' = Some name))"
proof (intro conjI impI allI)
  assume "map_of (objects ws) target = None"
  with assms show "boolean_operation cfg e operation target tool name0 s =
      (s, Returned [(''status'', JStr ''error''),
                    (''message'', JStr (''Target object '' @ quoted target @ '' not found''))])"
    by (simp add: boolean_operation_def)
next
  assume "map_of (objects ws) target \<noteq> None \<and> map_of (objects ws) tool = None"
  with assms show "boolean_operation cfg e operation target tool name0 s =
      (s, Returned [(''status'', JStr ''error''),
                    (''message'', JStr (''Tool object '' @ quoted tool @ '' not found''))])"
    by (auto simp add: boolean_operation_def)
next
  fix s' p
  assume a: "boolean_operation cfg e operation target tool name0 s = (s', Returned p) \<and> succeeded p"
  with assms show "map_of (objects ws) target \<noteq> None"
    by (auto simp: boolean_operation_def succeeded_def split: option.splits)
  from a assms show "map_of (objects ws) tool \<noteq> None"
    by (auto simp: boolean_operation_def succeeded_def split: option.splits)
  from a assms show "\<exists>name ws' wp. map_of p ''object_id'' = Some (JStr name)
                  \<and> get_current_workspace s' = Some ws'
                  \<and> map_of (objects ws') name =
                       Some \<lparr>params = Boolean operation target tool, workplane = wp\<rparr>
                  \<and> current_object ws' = Some name"
    by (auto simp: boolean_operation_def succeeded_def Let_def
             split: option.splits sum.splits if_splits)
qed

theorem boolean_operation_operands_witness:
  "boolean_operation mock_cfg ok_env ''union'' ''ghost'' ''c1'' None (two_solids mock_cfg) =
     (two_solids mock_cfg,
      Returned [(''status'', JStr ''error''),
                (''message'', JStr (''Target object '' @ quoted ''ghost'' @ '' not found''))])
   \<and> boolean_operation real_cfg ok_env ''union'' ''b1'' ''ghost'' None (two_solids real_cfg) =
     (two_solids real_cfg,
      Returned [(''status'', JStr ''error''),
                (''message'', JStr (''Tool object '' @ quoted ''ghost'' @ '' not found''))])
   \<and> (\<exists>ws' wp. get_current_workspace
                 (fst (boolean_operation real_cfg ok_env ''union'' ''b1'' ''c1'' None (two_solids real_cfg)))
                 = Some ws'
        \<and> map_of (objects ws') ''boolean_2'' =
             Some \<lparr>params = Boolean ''union'' ''b1'' ''c1'', workplane = wp\<rparr>)"
proof -
  obtain wm where wm: "get_current_workspace (two_solids mock_cfg) = Some wm"
    and m1: "map_of (objects wm) ''ghost'' = None"
    by (simp add: two_solids_mock get_current_workspace_def)
  obtain wr where wr: "get_current_workspace (two_solids real_cfg) = Some wr"
    and r1: "map_of (objects wr) ''b1'' \<noteq> None" and r2: "map_of (objects wr) ''ghost'' = None"
    by (simp add: two_solids_real get_current_workspace_def)
  have "\<exists>p. snd (boolean_operation real_cfg ok_env ''union'' ''b1'' ''c1'' None (two_solids real_cfg)) = Returned p
          \<and> succeeded p \<and> map_of p ''object_id'' = Some (JStr ''boolean_2'')"
    unfolding two_solids_real
    by (simp add: boolean_operation_def helper_defs example_defs succeeded_def
          str_nat.simps digit_char_def)
  then obtain s' p where run: "boolean_operation real_cfg ok_env ''union'' ''b1'' ''c1'' None (two_solids real_cfg) = (s', Returned p)"
    and ok: "succeeded p" and oid: "map_of p ''object_id'' = Some (JStr ''boolean_2'')"
    by (cases "boolean_operation real_cfg ok_env ''union'' ''b1'' ''c1'' None (two_solids real_cfg)") auto
  from boolean_operation_operands [OF wm, where target = "''ghost''" and cfg = mock_cfg and e = ok_env
      and operation = "''union''" and tool = "''c1''" and ?name0.0 = None] m1
  have A: "boolean_operation mock_cfg ok_env ''union'' ''ghost'' ''c1'' None (two_solids mock_cfg) =
     (two_solids mock_cfg,
      Returned [(''status'', JStr ''error''),
                (''message'', JStr (''Target object '' @ quoted ''ghost'' @ '' not found''))])"
    by simp
  from boolean_operation_operands [OF wr, where target = "''b1''" and cfg = real_cfg and e = ok_env
      and operation = "''union''" and tool = "''ghost''" and ?name0.0 = None] r1 r2
  have B: "boolean_operation real_cfg ok_env ''union'' ''b1'' ''ghost'' None (two_solids real_cfg) =
     (two_solids real_cfg,
      Returned [(''status'', JStr ''error''),
                (''message'', JStr (''Tool object '' @ quoted ''ghost'' @ '' not found''))])"
    by simp
  from boolean_operation_operands [OF wr, where target = "''b1''" and cfg = real_cfg and e = ok_env
      and operation = "''union''" and tool = "''c1''" and ?name0.0 = None] run ok oid
  have C: "\<exists>ws' wp. get_current_workspace s' = Some ws'
        \<and> map_of (objects ws') ''boolean_2'' =
             Some \<lparr>params = Boolean ''union'' ''b1'' ''c1'', workplane = wp\<rparr>"
    by auto
  from A B C run show ?thesis by simp
qed

section \<open>Default names\<close>

text \<open>
  C8. When no name is given, the name of a new object is its prefix, an underscore and
  the number of objects in the active workspace at the time of the call: \<open>box_\<close>n for
  \<open>create_box\<close>, \<open>cylinder_\<close>n for \<open>create_cylinder\<close>, \<open>boolean_\<close>n for
  \<open>boolean_operation\<close> and \<open>script_\<close>n for \<open>execute_cq_script\<close>. For each of the
  four handlers: every call without a name that returns success reports that name as its
  \<open>object_id\<close> and has stored the new object under this very key, as the current
  object; and the call does return (with success) as soon as the collaborators answer,
  that is, with the engine, when the construction and the STL export return, and without
  it, when the STL file can be written. In a workspace without objects, three calls of
  \<open>create_box\<close> without a name that return give the names \<open>box_0\<close>, \<open>box_1\<close>,
  \<open>box_2\<close>, in this order, whatever the dimensions and whatever the engine answers.
\<close>

theorem default_names:
  assumes "get_current_workspace s = Some ws"
  shows
    "(\<forall>s' p. create_box cfg e w l h c None s = (s', Returned p) \<longrightarrow>
        registered_as s' p (''box_'' @ str_nat (dict_len (objects ws))) (Box w l h c))
   \<and> (\<forall>v x.
        (CADQUERY_AVAILABLE cfg \<and> cq_box e w l h c = Inr v
           \<and> engine_export e v
                (os_path_join (temp_dir cfg) ((''box_'' @ str_nat (dict_len (objects ws))) @ ''.stl''))
                ByExtension = Inr x
         \<or> \<not> CADQUERY_AVAILABLE cfg
           \<and> open_write e
                (os_path_join (temp_dir cfg) ((''box_'' @ str_nat (dict_len (objects ws))) @ ''.stl'')) = None)
        \<longrightarrow> (\<exists>s' p. create_box cfg e w l h c None s = (s', Returned p)))
   \<and> (\<forall>s' p. create_cylinder cfg e r h c None s = (s', Returned p) \<longrightarrow>
        registered_as s' p (''cylinder_'' @ str_nat (dict_len (objects ws))) (Cylinder r h c))
   \<and> (\<forall>v x.
        (CADQUERY_AVAILABLE cfg \<and> cq_cylinder e h r = Inr v
           \<and> engine_export e v
                (os_path_join (temp_dir cfg) ((''cylinder_'' @ str_nat (dict_len (objects ws))) @ ''.stl''))
                ByExtension = Inr x
         \<or> \<not> CADQUERY_AVAILABLE cfg
           \<and> open_write e
                (os_path_join (temp_dir cfg) ((''cylinder_'' @ str_nat (dict_len (objects ws))) @ ''.stl'')) = None)
        \<longrightarrow> (\<exists>s' p. create_cylinder cfg e r h c None s = (s', Returned p)))
   \<and> (\<forall>s' p. boolean_operation cfg e operation target tool None s = (s', Returned p) \<and> succeeded p \<longrightarrow>
        registered_as s' p (''boolean_'' @ str_nat (dict_len (objects ws))) (Boolean operation target tool))
   \<and> (\<forall>t u a b v x.
        map_of (objects ws) target = Some t \<and> map_of (objects ws) tool = Some u
        \<and> (CADQUERY_AVAILABLE cfg \<and> workplane t = Some a \<and> workplane u = Some b
             \<and> apply_boolean e operation a b = Some (Inr v)
             \<and> engine_export e v
                  (os_path_join (temp_dir cfg) ((''boolean_'' @ str_nat (dict_len (objects ws))) @ ''.stl''))
                  ByExtension = Inr x
           \<or> \<not> CADQUERY_AVAILABLE cfg
             \<and> open_write e
                  (os_path_join (temp_dir cfg) ((''boolean_'' @ str_nat (dict_len (objects ws))) @ ''.stl'')) = None)
        \<longrightarrow> (\<exists>s' p. boolean_operation cfg e operation target tool None s = (s', Returned p) \<and> succeeded p))
   \<and> (\<forall>s' p. execute_cq_script cfg e script None s = (s', Returned p) \<and> succeeded p \<longrightarrow>
        registered_as s' p (''script_'' @ str_nat (dict_len (objects ws))) (Script script))
   \<and> (\<forall>v x.
        (CADQUERY_AVAILABLE cfg \<and> exec_script e script = Inr (Some v)
           \<and> engine_export e v
                (os_path_join (temp_dir cfg) ((''script_'' @ str_nat (dict_len (objects ws))) @ ''.stl''))
                ByExtension = Inr x
         \<or> \<not> CADQUERY_AVAILABLE cfg
           \<and> open_write e
                (os_path_join (temp_dir cfg) ((''script_'' @ str_nat (dict_len (objects ws))) @ ''.stl'')) = None)
        \<longrightarrow> (\<exists>s' p. execute_cq_script cfg e script None s = (s', Returned p) \<and> succeeded p))
   \<and> (objects ws = [] \<longrightarrow>
        (\<forall>e1 w1 l1 h1 c1 s1 p1 e2 w2 l2 h2 c2 s2 p2 e3 w3 l3 h3 c3 s3 p3.
           create_box cfg e1 w1 l1 h1 c1 None s = (s1, Returned p1)
           \<and> create_box cfg e2 w2 l2 h2 c2 None s1 = (s2, Returned p2)
           \<and> create_box cfg e3 w3 l3 h3 c3 None s2 = (s3, Returned p3) \<longrightarrow>
           map_of p1 ''object_id'' = Some (JStr ''box_0'')
           \<and> map_of p2 ''object_id'' = Some (JStr ''box_1'')
           \<and> map_of p3 ''object_id'' = Some (JStr ''box_2'')
           \<and> (\<exists>ws3. get_current_workspace s3 = Some ws3
                 \<and> dict_keys (objects ws3) = [''box_0'', ''box_1'', ''box_2''])))"
proof (intro conjI allI impI)
  fix s' p assume "create_box cfg e w l h c None s = (s', Returned p)"
  from create_box_registers [OF assms this]
  show "registered_as s' p (''box_'' @ str_nat (dict_len (objects ws))) (Box w l h c)" by simp
next
  fix v x
  assume "CADQUERY_AVAILABLE cfg \<and> cq_box e w l h c = Inr v
           \<and> engine_export e v
                (os_path_join (temp_dir cfg) ((''box_'' @ str_nat (dict_len (objects ws))) @ ''.stl''))
                ByExtension = Inr x
         \<or> \<not> CADQUERY_AVAILABLE cfg
           \<and> open_write e
                (os_path_join (temp_dir cfg) ((''box_'' @ str_nat (dict_len (objects ws))) @ ''.stl'')) = None"
  then show "\<exists>s' p. create_box cfg e w l h c None s = (s', Returned p)"
    by (rule create_box_returns [OF assms])
next
  fix s' p assume "create_cylinder cfg e r h c None s = (s', Returned p)"
  from create_cylinder_registers [OF assms this]
  show "registered_as s' p (''cylinder_'' @ str_nat (dict_len (objects ws))) (Cylinder r h c)" by simp
next
  fix v x
  assume "CADQUERY_AVAILABLE cfg \<and> cq_cylinder e h r = Inr v
           \<and> engine_export e v
                (os_path_join (temp_dir cfg) ((''cylinder_'' @ str_nat (dict_len (objects ws))) @ ''.stl''))
                ByExtension = Inr x
         \<or> \<not> CADQUERY_AVAILABLE cfg
           \<and> open_write e
                (os_path_join (temp_dir cfg) ((''cylinder_'' @ str_nat (dict_len (objects ws))) @ ''.stl'')) = None"
  then show "\<exists>s' p. create_cylinder cfg e r h c None s = (s', Returned p)"
    by (rule create_cylinder_returns [OF assms])
next
  fix s' p assume "boolean_operation cfg e operation target tool None s = (s', Returned p) \<and> succeeded p"
  then have a: "boolean_operation cfg e operation target tool None s = (s', Returned p)" and b: "succeeded p"
    by simp_all
  from boolean_operation_registers [OF assms a b]
  show "registered_as s' p (''boolean_'' @ str_nat (dict_len (objects ws))) (Boolean operation target tool)"
    by simp
next
  fix t u a b v x
  assume h: "map_of (objects ws) target = Some t \<and> map_of (objects ws) tool = Some u
        \<and> (CADQUERY_AVAILABLE cfg \<and> workplane t = Some a \<and> workplane u = Some b
             \<and> apply_boolean e operation a b = Some (Inr v)
             \<and> engine_export e v
                  (os_path_join (temp_dir cfg) ((''boolean_'' @ str_nat (dict_len (objects ws))) @ ''.stl''))
                  ByExtension = Inr x
           \<or> \<not> CADQUERY_AVAILABLE cfg
             \<and> open_write e
                  (os_path_join (temp_dir cfg) ((''boolean_'' @ str_nat (dict_len (objects ws))) @ ''.stl'')) = None)"
  then have t: "map_of (objects ws) target = Some t" and u: "map_of (objects ws) tool = Some u"
    by simp_all
  from h show "\<exists>s' p. boolean_operation cfg e operation target tool None s = (s', Returned p) \<and> succeeded p"
    by (intro boolean_operation_returns [OF assms t u, where v = v and x = x and a = a and b = b]) simp
next
  fix s' p assume "execute_cq_script cfg e script None s = (s', Returned p) \<and> succeeded p"
  then have a: "execute_cq_script cfg e script None s = (s', Returned p)" and b: "succeeded p"
    by simp_all
  from execute_cq_script_registers [OF assms a b]
  show "registered_as s' p (''script_'' @ str_nat (dict_len (objects ws))) (Script script)" by simp
next
  fix v x
  assume "CADQUERY_AVAILABLE cfg \<and> exec_script e script = Inr (Some v)
           \<and> engine_export e v
                (os_path_join (temp_dir cfg) ((''script_'' @ str_nat (dict_len (objects ws))) @ ''.stl''))
                ByExtension = Inr x
         \<or> \<not> CADQUERY_AVAILABLE cfg
           \<and> open_write e
                (os_path_join (temp_dir cfg) ((''script_'' @ str_nat (dict_len (objects ws))) @ ''.stl'')) = None"
  then show "\<exists>s' p. execute_cq_script cfg e script None s = (s', Returned p) \<and> succeeded p"
    by (rule execute_cq_script_returns [OF assms])
next
  fix e1 w1 l1 h1 c1 s1 p1 e2 w2 l2 h2 c2 s2 p2 e3 w3 l3 h3 c3 s3 p3
  assume empty: "objects ws = []"
    and runs: "create_box cfg e1 w1 l1 h1 c1 None s = (s1, Returned p1)
               \<and> create_box cfg e2 w2 l2 h2 c2 None s1 = (s2, Returned p2)
               \<and> create_box cfg e3 w3 l3 h3 c3 None s2 = (s3, Returned p3)"
  from runs have r1: "create_box cfg e1 w1 l1 h1 c1 None s = (s1, Returned p1)"
    and r2: "create_box cfg e2 w2 l2 h2 c2 None s1 = (s2, Returned p2)"
    and r3: "create_box cfg e3 w3 l3 h3 c3 None s2 = (s3, Returned p3)"
    by simp_all
  from create_box_returned [OF assms r1] empty obtain o1 where
    ws1: "get_current_workspace s1 = Some (store_object ws ''box_0'' o1)"
    and id1: "map_of p1 ''object_id'' = Some (JStr ''box_0'')"
    by (auto simp: dict_len_def dict_keys_def objects_store_object)
  from create_box_returned [OF ws1 r2] empty obtain o2 where
    ws2: "get_current_workspace s2 = Some (store_object (store_object ws ''box_0'' o1) ''box_1'' o2)"
    and id2: "map_of p2 ''object_id'' = Some (JStr ''box_1'')"
    by (auto simp: dict_len_def dict_keys_def objects_store_object)
  from create_box_returned [OF ws2 r3] empty obtain o3 where
    ws3: "get_current_workspace s3 =
            Some (store_object (store_object (store_object ws ''box_0'' o1) ''box_1'' o2) ''box_2'' o3)"
    and id3: "map_of p3 ''object_id'' = Some (JStr ''box_2'')"
    by (auto simp: dict_len_def dict_keys_def objects_store_object)
  show "map_of p1 ''object_id'' = Some (JStr ''box_0'')" by (rule id1)
  show "map_of p2 ''object_id'' = Some (JStr ''box_1'')" by (rule id2)
  show "map_of p3 ''object_id'' = Some (JStr ''box_2'')" by (rule id3)
  from ws3 empty show "\<exists>ws3. get_current_workspace s3 = Some ws3
                     \<and> dict_keys (objects ws3) = [''box_0'', ''box_1'', ''box_2'']"
    by (simp add: dict_keys_def objects_store_object)
qed

theorem default_names_witness:
  "(\<exists>s1 p1 s2 p2 s3 p3.
     create_box mock_cfg ok_env 1 1 1 True None (initial_state mock_cfg ok_env) = (s1, Returned p1)
     \<and> create_box mock_cfg ok_env 1 1 1 True None s1 = (s2, Returned p2)
     \<and> create_box mock_cfg ok_env 1 1 1 True None s2 = (s3, Returned p3)
     \<and> map_of p1 ''object_id'' = Some (JStr ''box_0'')
     \<and> map_of p2 ''object_id'' = Some (JStr ''box_1'')
     \<and> map_of p3 ''object_id'' = Some (JStr ''box_2''))
   \<and> (\<exists>s' p. create_box real_cfg ok_env 2 3 4 False None (two_solids real_cfg) = (s', Returned p)
         \<and> registered_as s' p ''box_2'' (Box 2 3 4 False))
   \<and> (\<exists>s' p. create_cylinder mock_cfg ok_env 1 5 True None (initial_state mock_cfg ok_env) = (s', Returned p)
         \<and> registered_as s' p ''cylinder_0'' (Cylinder 1 5 True))
   \<and> (\<exists>s' p. create_cylinder real_cfg ok_env 1 5 True None (two_solids real_cfg) = (s', Returned p)
         \<and> registered_as s' p ''cylinder_2'' (Cylinder 1 5 True))
   \<and> (\<exists>s' p. boolean_operation real_cfg ok_env ''subtract'' ''b1'' ''c1'' None (two_solids real_cfg) = (s', Returned p)
         \<and> registered_as s' p ''boolean_2'' (Boolean ''subtract'' ''b1'' ''c1''))
   \<and> (\<exists>s' p. boolean_operation mock_cfg ok_env ''union'' ''b1'' ''c1'' None (two_solids mock_cfg) = (s', Returned p)
         \<and> registered_as s' p ''boolean_2'' (Boolean ''union'' ''b1'' ''c1''))
   \<and> (\<exists>s' p. execute_cq_script real_cfg ok_env ''result = cq.Workplane()'' None (two_solids real_cfg) = (s', Returned p)
         \<and> registered_as s' p ''script_2'' (Script ''result = cq.Workplane()''))
   \<and> (\<exists>s' p. execute_cq_script mock_cfg ok_env ''result = cq.Workplane()'' None (initial_state mock_cfg ok_env) = (s', Returned p)
         \<and> registered_as s' p ''script_0'' (Script ''result = cq.Workplane()''))"
proof -
  have ws0: "get_current_workspace (initial_state mock_cfg ok_env) = Some (new_workspace mock_cfg ok_env)"
    by (simp add: get_current_workspace_def initial_state_def)
  have empty: "objects (new_workspace mock_cfg ok_env) = []"
    by (simp add: new_workspace_def)
  have len0 [simp]: "dict_len (objects (new_workspace mock_cfg ok_env)) = 0"
    by (simp add: new_workspace_def dict_len_def dict_keys_def)
  have wr: "get_current_workspace (two_solids real_cfg) =
              Some \<lparr>objects = [(''b1'', \<lparr>params = Box 2 3 4 True, workplane = Some (PyObj 1)\<rparr>),
                     (''c1'', \<lparr>params = Cylinder 1 5 True, workplane = Some (PyObj 2)\<rparr>)],
                    assembly = PyObj 0, current_object = Some ''c1''\<rparr>"
    by (simp add: two_solids_real get_current_workspace_def)
  have wm: "get_current_workspace (two_solids mock_cfg) =
              Some \<lparr>objects = [(''b1'', \<lparr>params = Box 2 3 4 True, workplane = None\<rparr>),
                     (''c1'', \<lparr>params = Cylinder 1 5 True, workplane = None\<rparr>)],
                    assembly = PyNone, current_object = Some ''c1''\<rparr>"
    by (simp add: two_solids_mock get_current_workspace_def)
  have av [simp]: "CADQUERY_AVAILABLE real_cfg" "\<not> CADQUERY_AVAILABLE mock_cfg"
    by (simp_all add: real_cfg_def mock_cfg_def)
  have ok [simp]: "open_write ok_env q = None" "engine_export ok_env v q ByExtension = Inr (Some ''solid'')"
    "cq_box ok_env w l h c = Inr (PyObj 1)" "cq_cylinder ok_env h r = Inr (PyObj 2)"
    "exec_script ok_env src = Inr (Some (PyObj 5))"
    "apply_boolean ok_env ''subtract'' a b = Some (Inr (PyObj 3))"
    for q v w l h c r src a b
    by (simp_all add: ok_env_def apply_boolean_def)
  note I = default_names [OF ws0, where cfg = mock_cfg and e = ok_env]
  note R = default_names [OF wr, where cfg = real_cfg and e = ok_env]
  note M = default_names [OF wm, where cfg = mock_cfg and e = ok_env]
  \<comment> \<open>three boxes\<close>
  from three_boxes_run obtain s1 p1 s2 p2 s3 p3 where runs:
    "create_box mock_cfg ok_env 1 1 1 True None (initial_state mock_cfg ok_env) = (s1, Returned p1)
     \<and> create_box mock_cfg ok_env 1 1 1 True None s1 = (s2, Returned p2)
     \<and> create_box mock_cfg ok_env 1 1 1 True None s2 = (s3, Returned p3)"
    by blast
  note I [THEN conjunct2, THEN conjunct2, THEN conjunct2, THEN conjunct2, THEN conjunct2,
      THEN conjunct2, THEN conjunct2, THEN conjunct2, THEN mp, OF empty, rule_format, OF runs]
  then have ids: "map_of p1 ''object_id'' = Some (JStr ''box_0'')
     \<and> map_of p2 ''object_id'' = Some (JStr ''box_1'')
     \<and> map_of p3 ''object_id'' = Some (JStr ''box_2'')"
    by simp
  with runs have A: "\<exists>s1 p1 s2 p2 s3 p3.
     create_box mock_cfg ok_env 1 1 1 True None (initial_state mock_cfg ok_env) = (s1, Returned p1)
     \<and> create_box mock_cfg ok_env 1 1 1 True None s1 = (s2, Returned p2)
     \<and> create_box mock_cfg ok_env 1 1 1 True None s2 = (s3, Returned p3)
     \<and> map_of p1 ''object_id'' = Some (JStr ''box_0'')
     \<and> map_of p2 ''object_id'' = Some (JStr ''box_1'')
     \<and> map_of p3 ''object_id'' = Some (JStr ''box_2'')"
    by blast
  \<comment> \<open>a box with the engine\<close>
  have "\<exists>s' p. create_box real_cfg ok_env 2 3 4 False None (two_solids real_cfg) = (s', Returned p)"
    by (rule R [THEN conjunct2, THEN conjunct1, rule_format]) simp
  then obtain sb pb where b1: "create_box real_cfg ok_env 2 3 4 False None (two_solids real_cfg) = (sb, Returned pb)"
    by blast
  from R [THEN conjunct1, rule_format, OF b1]
  have B: "registered_as sb pb ''box_2'' (Box 2 3 4 False)"
    by (simp add: dict_len_def dict_keys_def)
  \<comment> \<open>cylinders\<close>
  have "\<exists>s' p. create_cylinder mock_cfg ok_env 1 5 True None (initial_state mock_cfg ok_env) = (s', Returned p)"
    by (rule I [THEN conjunct2, THEN conjunct2, THEN conjunct2, THEN conjunct1, rule_format]) simp
  then obtain sc pc where c1: "create_cylinder mock_cfg ok_env 1 5 True None (initial_state mock_cfg ok_env) = (sc, Returned pc)"
    by blast
  from I [THEN conjunct2, THEN conjunct2, THEN conjunct1, rule_format, OF c1]
  have C: "registered_as sc pc ''cylinder_0'' (Cylinder 1 5 True)"
    by simp
  have "\<exists>s' p. create_cylinder real_cfg ok_env 1 5 True None (two_solids real_cfg) = (s', Returned p)"
    by (rule R [THEN conjunct2, THEN conjunct2, THEN conjunct2, THEN conjunct1, rule_format]) simp
  then obtain sd pd where d1: "create_cylinder real_cfg ok_env 1 5 True None (two_solids real_cfg) = (sd, Returned pd)"
    by blast
  from R [THEN conjunct2, THEN conjunct2, THEN conjunct1, rule_format, OF d1]
  have D: "registered_as sd pd ''cylinder_2'' (Cylinder 1 5 True)"
    by (simp add: dict_len_def dict_keys_def)
  \<comment> \<open>boolean operations\<close>
  have "\<exists>s' p. boolean_operation real_cfg ok_env ''subtract'' ''b1'' ''c1'' None (two_solids real_cfg) = (s', Returned p)
          \<and> succeeded p"
    by (rule R [THEN conjunct2, THEN conjunct2, THEN conjunct2, THEN conjunct2, THEN conjunct2,
          THEN conjunct1, rule_format,
          where t = "\<lparr>params = Box 2 3 4 True, workplane = Some (PyObj 1)\<rparr>"
            and u = "\<lparr>params = Cylinder 1 5 True, workplane = Some (PyObj 2)\<rparr>"
            and a = "PyObj 1" and b = "PyObj 2" and v = "PyObj 3" and x = "Some ''solid''"]) simp
  then obtain se pe where e1: "boolean_operation real_cfg ok_env ''subtract'' ''b1'' ''c1'' None (two_solids real_cfg) = (se, Returned pe)"
    and e2: "succeeded pe"
    by blast
  from R [THEN conjunct2, THEN conjunct2, THEN conjunct2, THEN conjunct2, THEN conjunct1,
      rule_format, OF conjI, OF e1 e2]
  have E: "registered_as se pe ''boolean_2'' (Boolean ''subtract'' ''b1'' ''c1'')"
    by (simp add: dict_len_def dict_keys_def)
  have "\<exists>s' p. boolean_operation mock_cfg ok_env ''union'' ''b1'' ''c1'' None (two_solids mock_cfg) = (s', Returned p)
          \<and> succeeded p"
    by (rule M [THEN conjunct2, THEN conjunct2, THEN conjunct2, THEN conjunct2, THEN conjunct2,
          THEN conjunct1, rule_format,
          where t = "\<lparr>params = Box 2 3 4 True, workplane = None\<rparr>"
            and u = "\<lparr>params = Cylinder 1 5 True, workplane = None\<rparr>"]) simp
  then obtain sf pf where f1: "boolean_operation mock_cfg ok_env ''union'' ''b1'' ''c1'' None (two_solids mock_cfg) = (sf, Returned pf)"
    and f2: "succeeded pf"
    by blast
  from M [THEN conjunct2, THEN conjunct2, THEN conjunct2, THEN conjunct2, THEN conjunct1,
      rule_format, OF conjI, OF f1 f2]
  have F: "registered_as sf pf ''boolean_2'' (Boolean ''union'' ''b1'' ''c1'')"
    by (simp add: dict_len_def dict_keys_def)
  \<comment> \<open>scripts\<close>
  have "\<exists>s' p. execute_cq_script real_cfg ok_env ''result = cq.Workplane()'' None (two_solids real_cfg) = (s', Returned p)
          \<and> succeeded p"
    by (rule R [THEN conjunct2, THEN conjunct2, THEN conjunct2, THEN conjunct2, THEN conjunct2,
          THEN conjunct2, THEN conjunct2, THEN conjunct1, rule_format]) simp
  then obtain sg pg where g1: "execute_cq_script real_cfg ok_env ''result = cq.Workplane()'' None (two_solids real_cfg) = (sg, Returned pg)"
    and g2: "succeeded pg"
    by blast
  from R [THEN conjunct2, THEN conjunct2, THEN conjunct2, THEN conjunct2, THEN conjunct2,
      THEN conjunct2, THEN conjunct1, rule_format, OF conjI, OF g1 g2]
  have G: "registered_as sg pg ''script_2'' (Script ''result = cq.Workplane()'')"
    by (simp add: dict_len_def dict_keys_def)
  have "\<exists>s' p. execute_cq_script mock_cfg ok_env ''result = cq.Workplane()'' None (initial_state mock_cfg ok_env) = (s', Returned p)
          \<and> succeeded p"
    by (rule I [THEN conjunct2, THEN conjunct2, THEN conjunct2, THEN conjunct2, THEN conjunct2,
          THEN conjunct2, THEN conjunct2, THEN conjunct1, rule_format]) simp
  then obtain sh ph where h1: "execute_cq_script mock_cfg ok_env ''result = cq.Workplane()'' None (initial_state mock_cfg ok_env) = (sh, Returned ph)"
    and h2: "succeeded ph"
    by blast
  from I [THEN conjunct2, THEN conjunct2, THEN conjunct2, THEN conjunct2, THEN conjunct2,
      THEN conjunct2, THEN conjunct1, rule_format, OF conjI, OF h1 h2]
  have H: "registered_as sh ph ''script_0'' (Script ''result = cq.Workplane()'')"
    by simp
  from b1 B have B': "\<exists>s' p. create_box real_cfg ok_env 2 3 4 False None (two_solids real_cfg) = (s', Returned p)
         \<and> registered_as s' p ''box_2'' (Box 2 3 4 False)" by blast
  from c1 C have C': "\<exists>s' p. create_cylinder mock_cfg ok_env 1 5 True None (initial_state mock_cfg ok_env) = (s', Returned p)
         \<and> registered_as s' p ''cylinder_0'' (Cylinder 1 5 True)" by blast
  from d1 D have D': "\<exists>s' p. create_cylinder real_cfg ok_env 1 5 True None (two_solids real_cfg) = (s', Returned p)
         \<and> registered_as s' p ''cylinder_2'' (Cylinder 1 5 True)" by blast
  from e1 E have E': "\<exists>s' p. boolean_operation real_cfg ok_env ''subtract'' ''b1'' ''c1'' None (two_solids real_cfg) = (s', Returned p)
         \<and> registered_as s' p ''boolean_2'' (Boolean ''subtract'' ''b1'' ''c1'')" by blast
  from f1 F have F': "\<exists>s' p. boolean_operation mock_cfg ok_env ''union'' ''b1'' ''c1'' None (two_solids mock_cfg) = (s', Returned p)
         \<and> registered_as s' p ''boolean_2'' (Boolean ''union'' ''b1'' ''c1'')" by blast
  from g1 G have G': "\<exists>s' p. execute_cq_script real_cfg ok_env ''result = cq.Workplane()'' None (two_solids real_cfg) = (s', Returned p)
         \<and> registered_as s' p ''script_2'' (Script ''result = cq.Workplane()'')" by blast
  from h1 H have H': "\<exists>s' p. execute_cq_script mock_cfg ok_env ''result = cq.Workplane()'' None (initial_state mock_cfg ok_env) = (s', Returned p)
         \<and> registered_as s' p ''script_0'' (Script ''result = cq.Workplane()'')" by blast
  show ?thesis
    by (intro conjI A B' C' D' E' F' G' H')
qed

section \<open>Synchronising from the editor\<close>







section \<open>Unknown boolean operations\<close>




section \<open>The STEP export with a destination\<close>



end
